theory Spec2Isabelle
  imports Main
begin

text \<open>
  A shallow embedding of the sync engine that copies records between a CRM and a
  spreadsheet: the Field Transformer (\<^verbatim>\<open>DataTransformer\<close>), the sheet to CRM orchestrator
  with its change detection (\<^verbatim>\<open>SheetsToHubSpotSync\<close>) and the CRM to sheet orchestrator
  (\<^verbatim>\<open>HubSpotToSheetsSync\<close>). The definitions follow the TypeScript sources method by
  method and keep their names; the properties come after the definitions.
\<close>

section \<open>JavaScript values\<close>

text \<open>
  The sync engines are TypeScript over values of type \<^verbatim>\<open>any\<close>: sheet cells, CRM
  property values and transform configurations. They are embedded as the datatype
  \<open>jsval\<close>. A JavaScript number is an integer-valued number or \<open>NaN\<close> here (row
  numbers, counters, millisecond time stamps and integer cells); fractions and infinities
  are not represented. An object is the list of its own properties in insertion order;
  members inherited from \<^verbatim>\<open>Object.prototype\<close> are not represented. Strings are lists of
  characters, and case mapping and white space are those of ASCII.
\<close>

datatype number = NaN | Num int

datatype jsval =
    Undefined
  | Null
  | JBool bool
  | JNum number
  | JStr string
  | JArr "jsval list"
  | JObj "(string \<times> jsval) list"

text \<open>\<^verbatim>\<open>!!v\<close>: the falsy values are undefined, null, false, 0, NaN and the empty string.\<close>

fun truthy :: "jsval \<Rightarrow> bool" where
  "truthy Undefined = False"
| "truthy Null = False"
| "truthy (JBool b) = b"
| "truthy (JNum NaN) = False"
| "truthy (JNum (Num n)) = (n \<noteq> 0)"
| "truthy (JStr s) = (s \<noteq> [])"
| "truthy (JArr xs) = True"
| "truthy (JObj kvs) = True"

text \<open>\<^verbatim>\<open>a || b\<close> on values, and the test for null or undefined.\<close>

definition js_or :: "jsval \<Rightarrow> jsval \<Rightarrow> jsval" where
  "js_or a b = (if truthy a then a else b)"

definition nullish :: "jsval \<Rightarrow> bool" where
  "nullish v = (case v of Undefined \<Rightarrow> True | Null \<Rightarrow> True | _ \<Rightarrow> False)"

text \<open>Decimal numerals, for \<^verbatim>\<open>String(n)\<close> and template strings.\<close>

definition digit_char :: "nat \<Rightarrow> char" where
  "digit_char d = ''0123456789'' ! (d mod 10)"

fun nat_to_string :: "nat \<Rightarrow> string" where
  "nat_to_string n =
     (if n < 10 then [digit_char n] else nat_to_string (n div 10) @ [digit_char (n mod 10)])"

definition int_to_string :: "int \<Rightarrow> string" where
  "int_to_string i = (if i < 0 then CHR ''-'' # nat_to_string (nat (- i)) else nat_to_string (nat i))"

fun number_to_string :: "number \<Rightarrow> string" where
  "number_to_string NaN = ''NaN''"
| "number_to_string (Num i) = int_to_string i"

text \<open>
  \<^verbatim>\<open>String(v)\<close> and \<^verbatim>\<open>Array.prototype.join\<close>: an array prints as its elements joined by
  commas, and \<open>join\<close> prints an undefined or null element as the empty string.
\<close>

fun to_String :: "jsval \<Rightarrow> string"
  and join_elems :: "string \<Rightarrow> jsval list \<Rightarrow> string" where
  "to_String Undefined = ''undefined''"
| "to_String Null = ''null''"
| "to_String (JBool b) = (if b then ''true'' else ''false'')"
| "to_String (JNum n) = number_to_string n"
| "to_String (JStr s) = s"
| "to_String (JArr xs) = join_elems '','' xs"
| "to_String (JObj kvs) = ''[object Object]''"
| "join_elems sep [] = []"
| "join_elems sep (Undefined # xs) = (if xs = [] then [] else sep @ join_elems sep xs)"
| "join_elems sep (Null # xs) = (if xs = [] then [] else sep @ join_elems sep xs)"
| "join_elems sep (x # xs) =
     (if xs = [] then to_String x else to_String x @ sep @ join_elems sep xs)"

text \<open>\<^verbatim>\<open>xs[i]\<close>: reading past the end of an array gives undefined.\<close>

definition js_nth :: "jsval list \<Rightarrow> nat \<Rightarrow> jsval" where
  "js_nth xs i = (if i < length xs then xs ! i else Undefined)"

text \<open>\<^verbatim>\<open>xs.indexOf(x)\<close>, with \<open>None\<close> for \<open>-1\<close>.\<close>

fun indexOf :: "'a list \<Rightarrow> 'a \<Rightarrow> nat option" where
  "indexOf [] x = None"
| "indexOf (y # ys) x = (if y = x then Some 0 else map_option Suc (indexOf ys x))"

text \<open>\<^verbatim>\<open>s.trim()\<close>, \<^verbatim>\<open>s.toLowerCase()\<close>, \<^verbatim>\<open>s.toUpperCase()\<close>.\<close>

definition is_space :: "char \<Rightarrow> bool" where
  "is_space c = (c = CHR 0x20 \<or> c = CHR 0x09 \<or> c = CHR 0x0A \<or> c = CHR 0x0B \<or> c = CHR 0x0C \<or> c = CHR 0x0D)"

definition trim :: "string \<Rightarrow> string" where
  "trim s = rev (dropWhile is_space (rev (dropWhile is_space s)))"

definition upper_letters :: string where
  "upper_letters = ''ABCDEFGHIJKLMNOPQRSTUVWXYZ''"

definition lower_letters :: string where
  "lower_letters = ''abcdefghijklmnopqrstuvwxyz''"

definition toLowerCase_char :: "char \<Rightarrow> char" where
  "toLowerCase_char c =
     (case map_of (zip upper_letters lower_letters) c of Some d \<Rightarrow> d | None \<Rightarrow> c)"

definition toUpperCase_char :: "char \<Rightarrow> char" where
  "toUpperCase_char c =
     (case map_of (zip lower_letters upper_letters) c of Some d \<Rightarrow> d | None \<Rightarrow> c)"

definition toLowerCase :: "string \<Rightarrow> string" where
  "toLowerCase s = map toLowerCase_char s"

definition toUpperCase :: "string \<Rightarrow> string" where
  "toUpperCase s = map toUpperCase_char s"

text \<open>The character classes \<^verbatim>\<open>\d\<close> and \<^verbatim>\<open>\w\<close> of the regular expressions used.\<close>

definition is_digit :: "char \<Rightarrow> bool" where
  "is_digit c = (c \<in> set ''0123456789'')"

definition is_word_char :: "char \<Rightarrow> bool" where
  "is_word_char c = (c \<in> set (upper_letters @ lower_letters @ ''0123456789_''))"

text \<open>\<^verbatim>\<open>s.replace(/\D/g, '')\<close> and \<^verbatim>\<open>s.replace(/[^0-9.-]/g, '')\<close>.\<close>

definition digits_only :: "string \<Rightarrow> string" where
  "digits_only s = filter is_digit s"

definition numeric_chars_only :: "string \<Rightarrow> string" where
  "numeric_chars_only s = filter (\<lambda>c. is_digit c \<or> c = CHR ''.'' \<or> c = CHR ''-'') s"

text \<open>
  \<^verbatim>\<open>s.split(sep)\<close> for a string separator: the text between the occurrences of \<open>sep\<close>,
  found from left to right; the empty separator splits into single characters.
  \<open>split_from sep acc s\<close> scans \<open>s\<close> with the reversed current part in \<open>acc\<close>.
\<close>

function split_from :: "string \<Rightarrow> string \<Rightarrow> string \<Rightarrow> string list" where
  "split_from sep acc [] = [rev acc]"
| "split_from sep acc (c # cs) =
     (if sep \<noteq> [] \<and> take (length sep) (c # cs) = sep
      then rev acc # split_from sep [] (drop (length sep) (c # cs))
      else split_from sep (c # acc) cs)"
  by pat_completeness auto
termination
  by (relation "measure (\<lambda>(sep, acc, s). length s)") auto

definition js_split :: "string \<Rightarrow> string \<Rightarrow> string list" where
  "js_split s sep = (if sep = [] then map (\<lambda>c. [c]) s else split_from sep [] s)"

text \<open>\<^verbatim>\<open>s.padStart(2, '0')\<close>.\<close>

definition padStart2 :: "string \<Rightarrow> string" where
  "padStart2 s = replicate (2 - length s) (CHR ''0'') @ s"

text \<open>
  \<^verbatim>\<open>obj?.key\<close> for the keys the code reads: the own property of an object, undefined
  otherwise. \<open>js_index obj key\<close> is \<^verbatim>\<open>obj[key]\<close>, where the key of an object is
  \<^verbatim>\<open>String(key)\<close> and the index of an array is a non-negative integer or its numeral;
  the length of an array and the characters and length of a string are not read this way
  here.
\<close>

definition get_prop :: "jsval \<Rightarrow> string \<Rightarrow> jsval" where
  "get_prop obj k =
     (case obj of
        JObj kvs \<Rightarrow> (case map_of kvs k of Some v \<Rightarrow> v | None \<Rightarrow> Undefined)
      | _ \<Rightarrow> Undefined)"

definition digit_value :: "char \<Rightarrow> nat" where
  "digit_value c = (case indexOf ''0123456789'' c of Some d \<Rightarrow> d | None \<Rightarrow> 0)"

definition array_index :: "jsval \<Rightarrow> nat option" where
  "array_index key =
     (case key of
        JNum (Num i) \<Rightarrow> if 0 \<le> i then Some (nat i) else None
      | JStr s \<Rightarrow>
          if s \<noteq> [] \<and> list_all is_digit s \<and> (s = ''0'' \<or> hd s \<noteq> CHR ''0'')
          then Some (foldl (\<lambda>n c. 10 * n + digit_value c) 0 s) else None
      | _ \<Rightarrow> None)"

definition js_index :: "jsval \<Rightarrow> jsval \<Rightarrow> jsval" where
  "js_index obj key =
     (case obj of
        JObj kvs \<Rightarrow> get_prop obj (to_String key)
      | JArr xs \<Rightarrow> (case array_index key of Some i \<Rightarrow> js_nth xs i | None \<Rightarrow> Undefined)
      | _ \<Rightarrow> Undefined)"

text \<open>
  \<^verbatim>\<open>a === b\<close>: primitives are equal by value and NaN is equal to nothing; two arrays or
  objects are equal only when they are the same object, which a value read from a cell
  or a record never is with a value of the configuration.
\<close>

fun strict_eq :: "jsval \<Rightarrow> jsval \<Rightarrow> bool" where
  "strict_eq (JNum NaN) b = False"
| "strict_eq (JArr xs) b = False"
| "strict_eq (JObj kvs) b = False"
| "strict_eq a b = (a = b)"

text \<open>
  A JavaScript \<^verbatim>\<open>Map\<close> and the own properties of an object iterate in insertion order,
  so both are association lists with distinct keys: \<open>Map_set\<close> overwrites the value of
  a key in place or appends a new entry, \<open>Map_delete\<close> removes the entry.
\<close>

fun Map_set :: "('k \<times> 'v) list \<Rightarrow> 'k \<Rightarrow> 'v \<Rightarrow> ('k \<times> 'v) list" where
  "Map_set [] k v = [(k, v)]"
| "Map_set ((k', v') # m) k v = (if k' = k then (k, v) # m else (k', v') # Map_set m k v)"

definition Map_get :: "('k \<times> 'v) list \<Rightarrow> 'k \<Rightarrow> 'v option" where
  "Map_get m k = map_of m k"

definition Map_delete :: "('k \<times> 'v) list \<Rightarrow> 'k \<Rightarrow> ('k \<times> 'v) list" where
  "Map_delete m k = filter (\<lambda>e. fst e \<noteq> k) m"

section \<open>The platform\<close>

text \<open>
  The thrown value of a \<^verbatim>\<open>throw new Error(msg)\<close> is its message, which is all the code reads
  of it (\<^verbatim>\<open>error.message\<close>).

  The code calls the JavaScript platform for dates, number parsing and formatting, JSON,
  the evaluation of user-supplied function text and SHA-256. These calls are the fields of
  \<open>js_runtime\<close>, a parameter of the model; a time value is the integer of
  \<^verbatim>\<open>getTime()\<close>, or NaN for an invalid date.
\<close>

type_synonym exn = string

record js_runtime =
  Date_new :: "jsval \<Rightarrow> number"
  Date_of_fields :: "number \<Rightarrow> number \<Rightarrow> number \<Rightarrow> number"
  Date_local :: "int \<Rightarrow> int \<times> int \<times> int"
  toLocaleDateString :: "int \<Rightarrow> string"
  parseInt :: "string \<Rightarrow> number"
  parseFloat :: "string \<Rightarrow> number"
  toFixed :: "int \<Rightarrow> jsval \<Rightarrow> exn + string"
  toLocaleString :: "int \<Rightarrow> string"
  format_currency :: "jsval \<Rightarrow> int \<Rightarrow> exn + string"
  JSON_stringify :: "jsval \<Rightarrow> jsval"
  JSON_parse :: "jsval \<Rightarrow> exn + jsval"
  run_function :: "jsval \<Rightarrow> jsval \<Rightarrow> exn + jsval"
  calculateRowHash :: "jsval list \<Rightarrow> string"

text \<open>
  \<open>Date_new rt v\<close> is \<^verbatim>\<open>new Date(v).getTime()\<close>, \<open>Date_of_fields rt y m d\<close> is
  \<^verbatim>\<open>new Date(y, m, d).getTime()\<close>, and \<open>Date_local rt t\<close> is the triple of
  \<^verbatim>\<open>getFullYear()\<close>, \<^verbatim>\<open>getMonth()\<close> and \<^verbatim>\<open>getDate()\<close> of the date with time value
  \<open>t\<close>. \<open>toFixed\<close> and \<open>format_currency\<close> (\<^verbatim>\<open>Intl.NumberFormat\<close>) throw a RangeError on
  a bad digit count or currency code; \<open>run_function rt body v\<close> runs the function text
  \<open>body\<close> on \<open>v\<close>.
\<close>

fun num_sub :: "number \<Rightarrow> number \<Rightarrow> number" where
  "num_sub (Num a) (Num b) = Num (a - b)"
| "num_sub a b = NaN"

section \<open>Field Transformer\<close>

text \<open>The helpers of \<^verbatim>\<open>class DataTransformer\<close> (sheets-to-hubspot.ts), in source order.\<close>

definition formatDate :: "js_runtime \<Rightarrow> jsval \<Rightarrow> jsval \<Rightarrow> jsval" where
  "formatDate rt value format =
     (if \<not> truthy value then JStr []
      else case Date_new rt value of
        NaN \<Rightarrow> JStr (to_String value)
      | Num t \<Rightarrow>
          (case Date_local rt t of (year, month0, date) \<Rightarrow>
             let month = padStart2 (int_to_string (month0 + 1));
                 day = padStart2 (int_to_string date)
             in if format = JStr ''MM/DD/YYYY''
                  then JStr (month @ ''/'' @ day @ ''/'' @ int_to_string year)
                else if format = JStr ''DD/MM/YYYY''
                  then JStr (day @ ''/'' @ month @ ''/'' @ int_to_string year)
                else if format = JStr ''YYYY-MM-DD''
                  then JStr (int_to_string year @ ''-'' @ month @ ''-'' @ day)
                else JStr (toLocaleDateString rt t)))"

definition parseDate :: "js_runtime \<Rightarrow> jsval \<Rightarrow> jsval \<Rightarrow> number" where
  "parseDate rt value format =
     (if \<not> truthy value then Num 0
      else let dateStr = to_String value
           in if format = JStr ''MM/DD/YYYY''
              then (let parts = js_split dateStr ''/''
                    in if length parts = 3
                       then Date_of_fields rt (parseInt rt (parts ! 2))
                              (num_sub (parseInt rt (parts ! 0)) (Num 1)) (parseInt rt (parts ! 1))
                       else Date_new rt (JStr dateStr))
              else Date_new rt (JStr dateStr))"

definition formatNumber :: "js_runtime \<Rightarrow> jsval \<Rightarrow> jsval \<Rightarrow> exn + jsval" where
  "formatNumber rt value config =
     (case parseFloat rt (to_String value) of
        NaN \<Rightarrow> Inr (JStr (to_String value))
      | Num n \<Rightarrow>
          if get_prop config ''decimals'' \<noteq> Undefined
            then map_sum id JStr (toFixed rt n (get_prop config ''decimals''))
          else if truthy (get_prop config ''thousands'')
            then Inr (JStr (toLocaleString rt n))
          else Inr (JStr (int_to_string n)))"

definition parseNumber :: "js_runtime \<Rightarrow> jsval \<Rightarrow> jsval" where
  "parseNumber rt value =
     (case value of
        JNum n \<Rightarrow> JNum n
      | _ \<Rightarrow> js_or (JNum (parseFloat rt (numeric_chars_only (to_String value)))) (JNum (Num 0)))"

definition formatCurrency :: "js_runtime \<Rightarrow> jsval \<Rightarrow> jsval \<Rightarrow> exn + jsval" where
  "formatCurrency rt value currency =
     (case parseFloat rt (to_String value) of
        NaN \<Rightarrow> Inr (JStr (to_String value))
      | Num n \<Rightarrow> map_sum id JStr (format_currency rt currency n))"

definition parseCurrency :: "js_runtime \<Rightarrow> jsval \<Rightarrow> jsval" where
  "parseCurrency rt value =
     (case value of
        JNum n \<Rightarrow> JNum n
      | _ \<Rightarrow> js_or (JNum (parseFloat rt (numeric_chars_only (to_String value)))) (JNum (Num 0)))"

definition booleanToText :: "jsval \<Rightarrow> jsval \<Rightarrow> jsval" where
  "booleanToText value config =
     (let isTrue = (value = JBool True \<or> value = JStr ''true'' \<or> value = JNum (Num 1))
      in if truthy (get_prop config ''trueValue'') \<and> truthy (get_prop config ''falseValue'')
         then (if isTrue then get_prop config ''trueValue'' else get_prop config ''falseValue'')
         else (if isTrue then JStr ''Yes'' else JStr ''No''))"

definition textToBoolean :: "jsval \<Rightarrow> jsval \<Rightarrow> jsval" where
  "textToBoolean value config =
     (if truthy (get_prop config ''trueValue'')
      then JBool (strict_eq value (get_prop config ''trueValue''))
      else (let str = toLowerCase (to_String value)
            in JBool (str = ''yes'' \<or> str = ''true'' \<or> str = ''1'')))"

definition enumToText :: "jsval \<Rightarrow> jsval \<Rightarrow> jsval" where
  "enumToText value mapping =
     (if \<not> truthy mapping then JStr (to_String value)
      else js_or (js_index mapping value) value)"

definition textToEnum :: "jsval \<Rightarrow> jsval \<Rightarrow> jsval" where
  "textToEnum value reverseMapping =
     (if \<not> truthy reverseMapping then JStr (to_String value)
      else js_or (js_index reverseMapping value) value)"

text \<open>
  \<^verbatim>\<open>concatenateFields\<close>: reading \<^verbatim>\<open>value[field]\<close> of null or undefined throws a TypeError.
\<close>

definition concatenateFields :: "jsval \<Rightarrow> jsval \<Rightarrow> exn + jsval" where
  "concatenateFields value config =
     (case get_prop config ''fields'' of
        JArr fieldNames \<Rightarrow>
          if fieldNames \<noteq> [] \<and> nullish value
          then Inl ''Cannot read properties of null or undefined''
          else Inr (JStr (join_elems (to_String (js_or (get_prop config ''separator'') (JStr '' '')))
                            (map (\<lambda>field. js_or (js_index value field) (JStr [])) fieldNames)))
      | _ \<Rightarrow> Inr (JStr (to_String value)))"

definition parts_at :: "string list \<Rightarrow> jsval \<Rightarrow> string" where
  "parts_at parts key =
     (case array_index key of
        Some i \<Rightarrow> if i < length parts then parts ! i else []
      | None \<Rightarrow> [])"

definition splitField :: "jsval \<Rightarrow> jsval \<Rightarrow> jsval" where
  "splitField value config =
     (let str = to_String value;
          parts = js_split str (to_String (js_or (get_prop config ''separator'') (JStr '','')))
      in if get_prop config ''index'' \<noteq> Undefined \<and> parts_at parts (get_prop config ''index'') \<noteq> []
         then JStr (trim (parts_at parts (get_prop config ''index'')))
         else JStr (case parts of [] \<Rightarrow> [] | p # ps \<Rightarrow> p))"

definition joinField :: "jsval \<Rightarrow> jsval \<Rightarrow> jsval" where
  "joinField value config =
     (case value of
        JArr xs \<Rightarrow> JStr (join_elems (to_String (js_or (get_prop config ''separator'') (JStr '',''))) xs)
      | _ \<Rightarrow> JStr (to_String value))"

text \<open>
  \<^verbatim>\<open>toTitleCase\<close>: every match of \<^verbatim>\<open>/\w\S*/g\<close> gets its first character in upper case and
  the rest in lower case.
\<close>

function toTitleCase :: "string \<Rightarrow> string" where
  "toTitleCase [] = []"
| "toTitleCase (c # cs) =
     (if is_word_char c
      then toUpperCase_char c # toLowerCase (takeWhile (\<lambda>d. \<not> is_space d) cs)
             @ toTitleCase (dropWhile (\<lambda>d. \<not> is_space d) cs)
      else c # toTitleCase cs)"
  by pat_completeness auto
termination
  by (relation "measure length") (auto simp: length_dropWhile_le less_Suc_eq_le)

definition formatPhone :: "jsval \<Rightarrow> jsval \<Rightarrow> jsval" where
  "formatPhone value format =
     (let digits = digits_only (to_String value)
      in if format = JStr ''US'' \<and> length digits = 10
         then JStr (''('' @ take 3 digits @ '') '' @ take 3 (drop 3 digits) @ ''-'' @ drop 6 digits)
         else JStr digits)"

definition parsePhone :: "jsval \<Rightarrow> jsval" where
  "parsePhone value = JStr (digits_only (to_String value))"

definition applyCustomFunction :: "js_runtime \<Rightarrow> jsval \<Rightarrow> jsval \<Rightarrow> jsval" where
  "applyCustomFunction rt value functionStr =
     (if \<not> truthy functionStr then value
      else case run_function rt functionStr value of Inl error \<Rightarrow> value | Inr r \<Rightarrow> r)"

text \<open>
  \<^verbatim>\<open>DataTransformer.applyTransformation\<close> (CRM to sheet) and
  \<^verbatim>\<open>DataTransformer.applyReverseTransformation\<close> (sheet to CRM): the \<^verbatim>\<open>switch\<close> on the
  transform type, case by case, with \<^verbatim>\<open>default: return value\<close> last.
\<close>

definition applyTransformation :: "js_runtime \<Rightarrow> jsval \<Rightarrow> string \<Rightarrow> jsval \<Rightarrow> exn + jsval" where
  "applyTransformation rt value transformType config =
     (if transformType = ''DATE_FORMAT''
        then Inr (formatDate rt value (js_or (get_prop config ''format'') (JStr ''MM/DD/YYYY'')))
      else if transformType = ''NUMBER_FORMAT'' then formatNumber rt value config
      else if transformType = ''CURRENCY_FORMAT''
        then formatCurrency rt value (js_or (get_prop config ''currency'') (JStr ''USD''))
      else if transformType = ''BOOLEAN_TO_TEXT'' then Inr (booleanToText value config)
      else if transformType = ''ENUM_TO_TEXT'' then Inr (enumToText value (get_prop config ''mapping''))
      else if transformType = ''CONCATENATE'' then concatenateFields value config
      else if transformType = ''SPLIT'' then Inr (splitField value config)
      else if transformType = ''UPPERCASE'' then Inr (JStr (toUpperCase (to_String value)))
      else if transformType = ''LOWERCASE'' then Inr (JStr (toLowerCase (to_String value)))
      else if transformType = ''TITLE_CASE'' then Inr (JStr (toTitleCase (to_String value)))
      else if transformType = ''TRIM'' then Inr (JStr (trim (to_String value)))
      else if transformType = ''PHONE_FORMAT''
        then Inr (formatPhone value (js_or (get_prop config ''format'') (JStr ''US'')))
      else if transformType = ''EMAIL_NORMALIZE''
        then Inr (JStr (trim (toLowerCase (to_String value))))
      else if transformType = ''JSON_TO_STRING'' then Inr (JSON_stringify rt value)
      else if transformType = ''ARRAY_TO_STRING''
        then Inr (case value of
                    JArr xs \<Rightarrow> JStr (join_elems (to_String (js_or (get_prop config ''separator'') (JStr '', ''))) xs)
                  | _ \<Rightarrow> value)
      else if transformType = ''CUSTOM_FUNCTION''
        then Inr (applyCustomFunction rt value (get_prop config ''function''))
      else Inr value)"

definition applyReverseTransformation :: "js_runtime \<Rightarrow> jsval \<Rightarrow> string \<Rightarrow> jsval \<Rightarrow> exn + jsval" where
  "applyReverseTransformation rt value transformType config =
     (if transformType = ''DATE_FORMAT''
        then Inr (JNum (parseDate rt value (js_or (get_prop config ''format'') (JStr ''MM/DD/YYYY''))))
      else if transformType = ''NUMBER_FORMAT'' then Inr (parseNumber rt value)
      else if transformType = ''CURRENCY_FORMAT'' then Inr (parseCurrency rt value)
      else if transformType = ''BOOLEAN_TO_TEXT'' then Inr (textToBoolean value config)
      else if transformType = ''ENUM_TO_TEXT''
        then Inr (textToEnum value (get_prop config ''reverseMapping''))
      else if transformType = ''CONCATENATE'' then Inr value
      else if transformType = ''SPLIT'' then Inr (joinField value config)
      else if transformType = ''UPPERCASE'' \<or> transformType = ''LOWERCASE''
              \<or> transformType = ''TITLE_CASE'' \<or> transformType = ''TRIM'' then Inr value
      else if transformType = ''PHONE_FORMAT'' then Inr (parsePhone value)
      else if transformType = ''EMAIL_NORMALIZE''
        then Inr (JStr (trim (toLowerCase (to_String value))))
      else if transformType = ''JSON_TO_STRING''
        then Inr (case JSON_parse rt value of Inl error \<Rightarrow> value | Inr v \<Rightarrow> v)
      else if transformType = ''ARRAY_TO_STRING''
        then Inr (JArr (map JStr (js_split (to_String value)
                                    (to_String (js_or (get_prop config ''separator'') (JStr '', ''))))))
      else if transformType = ''CUSTOM_FUNCTION''
        then Inr (applyCustomFunction rt value (get_prop config ''reverseFunction''))
      else Inr value)"

text \<open>The transform types the two switches name.\<close>

definition recognized_types :: "string list" where
  "recognized_types =
     [''DATE_FORMAT'', ''NUMBER_FORMAT'', ''CURRENCY_FORMAT'', ''BOOLEAN_TO_TEXT'', ''ENUM_TO_TEXT'',
      ''CONCATENATE'', ''SPLIT'', ''UPPERCASE'', ''LOWERCASE'', ''TITLE_CASE'', ''TRIM'',
      ''PHONE_FORMAT'', ''EMAIL_NORMALIZE'', ''JSON_TO_STRING'', ''ARRAY_TO_STRING'',
      ''CUSTOM_FUNCTION'']"

section \<open>Effects\<close>

text \<open>
  The orchestrators talk to the CRM client, the sheet client and the store. Every such
  call is recorded in the run's list of calls, and its answer comes from the \<open>world\<close>,
  which may answer by the calls made so far: a thrown message (\<open>Inl\<close>) or a value
  (\<open>Inr\<close>). The store's time stamps (\<^verbatim>\<open>completedAt\<close>, \<^verbatim>\<open>lastSyncedAt\<close>) are left out.
\<close>

type_synonym props = "(string \<times> jsval) list"

record hub_record =
  hs_id :: string
  hs_properties :: props

record sheet_data =
  headers :: "string list"
  rows :: "jsval list list"

record job_update =
  job_status :: string
  job_recordsProcessed :: "nat option"
  job_recordsCreated :: "nat option"
  job_recordsUpdated :: "nat option"
  job_recordsFailed :: "nat option"
  job_errorMessage :: "string option"

datatype call =
    SyncJob_create string
  | SyncJob_update string job_update
  | ReadSheet string string
  | DoSearch string string jsval
  | BasicApi_create string props
  | BasicApi_update string string props
  | SyncLog_create string string string string string "string option"
  | SheetSyncState_upsert string jsval nat string
  | GetPage string "string option" "string list"
  | ClearRange string string string
  | WriteSheet string string "jsval list list" string
  | AppendToSheet string string "jsval list list"
  | UpdateCells string "(string \<times> jsval list list) list"

text \<open>
  \<open>syncJob_create\<close> answers the new job's id, \<open>doSearch\<close> the ids of the records found,
  \<open>basicApi_create\<close> the new record's id, \<open>getPage\<close> a page of records and the cursor
  \<^verbatim>\<open>paging?.next?.after\<close>; \<open>effect\<close> answers the calls whose result the code does not read.
\<close>

record world =
  syncJob_create :: "call list \<Rightarrow> string \<Rightarrow> exn + string"
  readSheet :: "call list \<Rightarrow> string \<Rightarrow> string \<Rightarrow> exn + sheet_data"
  doSearch :: "call list \<Rightarrow> string \<Rightarrow> string \<Rightarrow> jsval \<Rightarrow> exn + string list"
  basicApi_create :: "call list \<Rightarrow> string \<Rightarrow> props \<Rightarrow> exn + string"
  getPage :: "call list \<Rightarrow> string \<Rightarrow> string option \<Rightarrow> string list
                \<Rightarrow> exn + hub_record list \<times> string option"
  effect :: "call list \<Rightarrow> call \<Rightarrow> exn + unit"

text \<open>
  A run threads the calls made and the mutable result object; a step returns, throws, or
  (the paging loop only) does not come back. What a step has done to the state stays
  done when it throws.
\<close>

datatype 'a outcome = Returns 'a | Throws exn | Diverges

record 'r run_state =
  calls :: "call list"
  result :: 'r

type_synonym ('r, 'a) io = "'r run_state \<Rightarrow> 'r run_state \<times> 'a outcome"

definition io_return :: "'a \<Rightarrow> ('r, 'a) io" where
  "io_return x = (\<lambda>s. (s, Returns x))"

definition io_throw :: "exn \<Rightarrow> ('r, 'a) io" where
  "io_throw e = (\<lambda>s. (s, Throws e))"

definition io_bind :: "('r, 'a) io \<Rightarrow> ('a \<Rightarrow> ('r, 'b) io) \<Rightarrow> ('r, 'b) io" where
  "io_bind m f =
     (\<lambda>s. case m s of
             (s', Returns x) \<Rightarrow> f x s'
           | (s', Throws e) \<Rightarrow> (s', Throws e)
           | (s', Diverges) \<Rightarrow> (s', Diverges))"

definition io_seq :: "('r, unit) io \<Rightarrow> ('r, 'b) io \<Rightarrow> ('r, 'b) io" where
  "io_seq m n = io_bind m (\<lambda>u. n)"

definition io_catch :: "('r, 'a) io \<Rightarrow> (exn \<Rightarrow> ('r, 'a) io) \<Rightarrow> ('r, 'a) io" where
  "io_catch m handler =
     (\<lambda>s. case m s of
             (s', Throws e) \<Rightarrow> handler e s'
           | (s', Returns x) \<Rightarrow> (s', Returns x)
           | (s', Diverges) \<Rightarrow> (s', Diverges))"

definition io_modify :: "('r \<Rightarrow> 'r) \<Rightarrow> ('r, unit) io" where
  "io_modify f = (\<lambda>s. (s\<lparr>result := f (result s)\<rparr>, Returns ()))"

definition io_result :: "('r, 'r) io" where
  "io_result = (\<lambda>s. (s, Returns (result s)))"

definition io_of :: "exn + 'a \<Rightarrow> ('r, 'a) io" where
  "io_of r = (case r of Inl e \<Rightarrow> io_throw e | Inr x \<Rightarrow> io_return x)"

definition ext :: "call \<Rightarrow> (call list \<Rightarrow> exn + 'a) \<Rightarrow> ('r, 'a) io" where
  "ext c answer =
     (\<lambda>s. (s\<lparr>calls := calls s @ [c]\<rparr>,
           case answer (calls s) of Inl e \<Rightarrow> Throws e | Inr x \<Rightarrow> Returns x))"

section \<open>Configurations and results\<close>

record field_mapping =
  hubspotProperty :: string
  sheetColumn :: string
  columnIndex :: nat
  transformType :: "string option"

record s2h_field_mapping = field_mapping +
  isRequired :: bool

record 'm sync_config =
  syncConfigId :: string
  userId :: string
  spreadsheetId :: string
  sheetName :: string
  hubspotEntityType :: string
  fieldMappings :: "'m list"

record SheetsToHubSpotSyncConfig = "s2h_field_mapping sync_config" +
  identifierColumn :: string
  updateExisting :: bool
  createNew :: bool
  skipInvalid :: bool

record HubSpotToSheetsSyncConfig = "field_mapping sync_config" +
  syncMode :: string
  keyColumn :: "string option"

record 'e sync_result =
  success :: bool
  recordsCreated :: nat
  recordsUpdated :: nat
  recordsSkipped :: nat
  errors :: "'e list"

text \<open>An error of a sheet row is \<^verbatim>\<open>{row, data, error}\<close>; an error of a CRM run is \<^verbatim>\<open>{record, error}\<close>.\<close>

record SheetsSyncResult = "(nat \<times> jsval list \<times> string) sync_result" +
  rowsProcessed :: nat

record SyncResult = "(jsval \<times> string) sync_result" +
  recordsProcessed :: nat

section \<open>Sheet to CRM: empty rows\<close>

text \<open>
  \<^verbatim>\<open>isEmptyRow(row) = row.every(cell => !cell || String(cell).trim() === '')\<close>
  (sheets-to-hubspot.ts, SheetsToHubSpotSync.isEmptyRow).
\<close>

definition isEmptyRow :: "jsval list \<Rightarrow> bool" where
  "isEmptyRow row = list_all (\<lambda>cell. if truthy cell then trim (to_String cell) = [] else True) row"

text \<open>
  The specification's reading of an empty cell: null, undefined, or blank after trimming.
\<close>

definition spec_blank_cell :: "jsval \<Rightarrow> bool" where
  "spec_blank_cell cell = (cell = Null \<or> cell = Undefined \<or> trim (to_String cell) = [])"

section \<open>Sheet to CRM orchestrator\<close>

text \<open>The private methods of \<^verbatim>\<open>class SheetsToHubSpotSync\<close> (sheets-to-hubspot.ts).\<close>

fun validateHeaders :: "string list \<Rightarrow> 'a field_mapping_scheme list \<Rightarrow> exn + unit" where
  "validateHeaders hs [] = Inr ()"
| "validateHeaders hs (mapping # mappings) =
     (if sheetColumn mapping \<notin> set hs
      then Inl (''Column \"'' @ sheetColumn mapping @ ''\" not found in sheet'')
      else validateHeaders hs mappings)"

definition SheetsToHubSpotSync_applyTransformation ::
  "js_runtime \<Rightarrow> jsval \<Rightarrow> string option \<Rightarrow> jsval" where
  "SheetsToHubSpotSync_applyTransformation rt value ty =
     (case ty of
        None \<Rightarrow> value
      | Some t \<Rightarrow>
          if t = [] then value
          else if t = ''DATE_TO_TIMESTAMP''
            then (case Date_new rt value of NaN \<Rightarrow> value | Num ms \<Rightarrow> JNum (Num ms))
          else if t = ''STRING_TO_NUMBER''
            then js_or (JNum (parseFloat rt (numeric_chars_only (to_String value)))) (JNum (Num 0))
          else if t = ''BOOLEAN_TO_STRING''
            then (if toLowerCase (to_String value) = ''true'' then JStr ''true'' else JStr ''false'')
          else if t = ''TRIM'' then JStr (trim (to_String value))
          else if t = ''LOWERCASE'' then JStr (toLowerCase (to_String value))
          else if t = ''UPPERCASE'' then JStr (toUpperCase (to_String value))
          else if t = ''EMAIL_NORMALIZE'' then JStr (trim (toLowerCase (to_String value)))
          else if t = ''PHONE_FORMAT'' then JStr (digits_only (to_String value))
          else value)"

definition s2h_recognized_types :: "string list" where
  "s2h_recognized_types =
     [''DATE_TO_TIMESTAMP'', ''STRING_TO_NUMBER'', ''BOOLEAN_TO_STRING'', ''TRIM'', ''LOWERCASE'',
      ''UPPERCASE'', ''EMAIL_NORMALIZE'', ''PHONE_FORMAT'']"

text \<open>\<^verbatim>\<open>data[key]\<close> of a property object.\<close>

definition prop_of :: "props \<Rightarrow> string \<Rightarrow> jsval" where
  "prop_of data k = (case Map_get data k of Some v \<Rightarrow> v | None \<Rightarrow> Undefined)"

definition transformRowToHubSpot ::
  "js_runtime \<Rightarrow> jsval list \<Rightarrow> 'a field_mapping_scheme list \<Rightarrow> props" where
  "transformRowToHubSpot rt row mappings =
     foldl (\<lambda>properties mapping.
              let value = js_nth row (columnIndex mapping)
              in if value \<noteq> Null \<and> value \<noteq> Undefined \<and> value \<noteq> JStr []
                 then Map_set properties (hubspotProperty mapping)
                        (SheetsToHubSpotSync_applyTransformation rt value (transformType mapping))
                 else properties)
       [] mappings"

text \<open>\<^verbatim>\<open>validateRequiredFields\<close> returns \<^verbatim>\<open>missingFields\<close>; \<^verbatim>\<open>valid\<close> is that the list is empty.\<close>

definition validateRequiredFields :: "props \<Rightarrow> s2h_field_mapping list \<Rightarrow> string list" where
  "validateRequiredFields data mappings =
     map sheetColumn
       (filter (\<lambda>mapping. isRequired mapping \<and> \<not> truthy (prop_of data (hubspotProperty mapping)))
          mappings)"

definition join_strings :: "string \<Rightarrow> string list \<Rightarrow> string" where
  "join_strings sep xs = join_elems sep (map JStr xs)"

definition is_entity_type :: "string \<Rightarrow> bool" where
  "is_entity_type entityType =
     (entityType = ''contacts'' \<or> entityType = ''companies'' \<or> entityType = ''deals'')"

text \<open>
  \<^verbatim>\<open>findHubSpotRecord\<close>: the search of the entity type's API inside \<^verbatim>\<open>try\<close>, then
  \<^verbatim>\<open>searchResults?.results?.[0] || null\<close>; \<^verbatim>\<open>catch\<close> returns null. The result is the
  id of the record found.
\<close>

definition findHubSpotRecord ::
  "world \<Rightarrow> string \<Rightarrow> string \<Rightarrow> jsval \<Rightarrow> ('r, string option) io" where
  "findHubSpotRecord w entityType identifierProperty identifierValue =
     io_catch
       (io_bind
          (if entityType = ''contacts'' then
             (if identifierProperty = ''email''
              then io_bind (ext (DoSearch ''contacts'' ''email'' identifierValue)
                              (\<lambda>h. doSearch w h ''contacts'' ''email'' identifierValue))
                     (\<lambda>found. io_return (Some found))
              else io_return None)
           else if entityType = ''companies'' then
             io_bind (ext (DoSearch ''companies'' identifierProperty identifierValue)
                        (\<lambda>h. doSearch w h ''companies'' identifierProperty identifierValue))
               (\<lambda>found. io_return (Some found))
           else if entityType = ''deals'' then
             io_bind (ext (DoSearch ''deals'' identifierProperty identifierValue)
                        (\<lambda>h. doSearch w h ''deals'' identifierProperty identifierValue))
               (\<lambda>found. io_return (Some found))
           else io_return None)
          (\<lambda>searchResults.
             io_return (case searchResults of
                          None \<Rightarrow> None
                        | Some [] \<Rightarrow> None
                        | Some (r # rs) \<Rightarrow> Some r)))
       (\<lambda>error. io_return None)"

definition createHubSpotRecord :: "world \<Rightarrow> string \<Rightarrow> props \<Rightarrow> ('r, string) io" where
  "createHubSpotRecord w entityType properties =
     (if is_entity_type entityType
      then ext (BasicApi_create entityType properties) (\<lambda>h. basicApi_create w h entityType properties)
      else io_throw (''Unsupported entity type: '' @ entityType))"

definition updateHubSpotRecord :: "world \<Rightarrow> string \<Rightarrow> string \<Rightarrow> props \<Rightarrow> ('r, unit) io" where
  "updateHubSpotRecord w entityType recordId properties =
     (if is_entity_type entityType
      then ext (BasicApi_update entityType recordId properties)
             (\<lambda>h. effect w h (BasicApi_update entityType recordId properties))
      else io_throw (''Unsupported entity type: '' @ entityType))"

definition logSyncOperation ::
  "world \<Rightarrow> string \<Rightarrow> string \<Rightarrow> string \<Rightarrow> string \<Rightarrow> string \<Rightarrow> string option \<Rightarrow> ('r, unit) io" where
  "logSyncOperation w syncJobId operation entityType entityId st message =
     (let c = SyncLog_create syncJobId operation (toUpperCase entityType) entityId st message
      in ext c (\<lambda>h. effect w h c))"

definition SheetsToHubSpotSync_updateSyncState ::
  "world \<Rightarrow> string \<Rightarrow> string \<Rightarrow> nat \<Rightarrow> ('r, unit) io" where
  "SheetsToHubSpotSync_updateSyncState w sid hubspotEntityId sheetRowNumber =
     (let c = SheetSyncState_upsert sid (JStr hubspotEntityId) sheetRowNumber []
      in ext c (\<lambda>h. effect w h c))"

text \<open>
  The two branches of \<^verbatim>\<open>if (existingRecord) ... else ...\<close> in the row loop.
\<close>

definition existing_record_branch ::
  "world \<Rightarrow> SheetsToHubSpotSyncConfig \<Rightarrow> string \<Rightarrow> string \<Rightarrow> props \<Rightarrow> (SheetsSyncResult, unit) io" where
  "existing_record_branch w config syncJobId existingId hubspotData =
     (if updateExisting config then
        io_seq (updateHubSpotRecord w (hubspotEntityType config) existingId hubspotData)
       (io_seq (io_modify (\<lambda>r. r\<lparr>recordsUpdated := recordsUpdated r + 1\<rparr>))
          (logSyncOperation w syncJobId ''UPDATE'' (hubspotEntityType config)
             existingId ''SUCCESS'' None))
      else io_modify (\<lambda>r. r\<lparr>recordsSkipped := recordsSkipped r + 1\<rparr>))"

definition no_record_branch ::
  "world \<Rightarrow> SheetsToHubSpotSyncConfig \<Rightarrow> string \<Rightarrow> props \<Rightarrow> nat \<Rightarrow> (SheetsSyncResult, unit) io" where
  "no_record_branch w config syncJobId hubspotData rowNumber =
     (if createNew config then
        io_bind (createHubSpotRecord w (hubspotEntityType config) hubspotData)
          (\<lambda>newId.
             io_seq (io_modify (\<lambda>r. r\<lparr>recordsCreated := recordsCreated r + 1\<rparr>))
            (io_seq (logSyncOperation w syncJobId ''CREATE'' (hubspotEntityType config)
                       newId ''SUCCESS'' None)
               (SheetsToHubSpotSync_updateSyncState w (spreadsheetId config) newId rowNumber)))
      else io_modify (\<lambda>r. r\<lparr>recordsSkipped := recordsSkipped r + 1\<rparr>))"

text \<open>
  The body of the row loop's \<^verbatim>\<open>try\<close> block. A \<^verbatim>\<open>continue\<close> leaves the block without
  reaching \<^verbatim>\<open>result.rowsProcessed++\<close>.
\<close>

definition process_row_try ::
  "js_runtime \<Rightarrow> world \<Rightarrow> SheetsToHubSpotSyncConfig \<Rightarrow> string \<Rightarrow> nat \<Rightarrow> jsval list \<Rightarrow> nat
     \<Rightarrow> (SheetsSyncResult, unit) io" where
  "process_row_try rt w config syncJobId identifierIndex row rowNumber =
     (if isEmptyRow row
      then io_modify (\<lambda>r. r\<lparr>recordsSkipped := recordsSkipped r + 1\<rparr>)
      else
        let hubspotData = transformRowToHubSpot rt row (fieldMappings config);
            missingFields = validateRequiredFields hubspotData (fieldMappings config)
        in if missingFields \<noteq> [] then
             (if skipInvalid config
              then io_modify (\<lambda>r. r\<lparr>recordsSkipped := recordsSkipped r + 1,
                       errors := errors r @ [(rowNumber, row,
                         ''Missing required fields: '' @ join_strings '', '' missingFields)]\<rparr>)
              else io_throw (''Row '' @ nat_to_string rowNumber @ '': Missing required fields: ''
                              @ join_strings '', '' missingFields))
           else
             io_bind (findHubSpotRecord w (hubspotEntityType config) (identifierColumn config)
                        (js_nth row identifierIndex))
               (\<lambda>existingRecord.
                  io_seq
                    (case existingRecord of
                       Some existingId \<Rightarrow>
                         existing_record_branch w config syncJobId existingId hubspotData
                     | None \<Rightarrow> no_record_branch w config syncJobId hubspotData rowNumber)
                    (io_modify (\<lambda>r. r\<lparr>rowsProcessed := rowsProcessed r + 1\<rparr>))))"

text \<open>One turn of the loop: the \<^verbatim>\<open>try\<close> block and the row-level \<^verbatim>\<open>catch\<close>.\<close>

definition process_row ::
  "js_runtime \<Rightarrow> world \<Rightarrow> SheetsToHubSpotSyncConfig \<Rightarrow> string \<Rightarrow> nat \<Rightarrow> jsval list \<Rightarrow> nat
     \<Rightarrow> (SheetsSyncResult, unit) io" where
  "process_row rt w config syncJobId identifierIndex row rowNumber =
     io_catch (process_row_try rt w config syncJobId identifierIndex row rowNumber)
       (\<lambda>error.
          io_seq (io_modify (\<lambda>r. r\<lparr>errors := errors r @ [(rowNumber, row, error)]\<rparr>))
            (logSyncOperation w syncJobId ''SKIP'' (hubspotEntityType config) [] ''ERROR''
               (Some error)))"

fun process_rows ::
  "js_runtime \<Rightarrow> world \<Rightarrow> SheetsToHubSpotSyncConfig \<Rightarrow> string \<Rightarrow> nat \<Rightarrow> jsval list list \<Rightarrow> nat
     \<Rightarrow> (SheetsSyncResult, unit) io" where
  "process_rows rt w config syncJobId identifierIndex [] rowIndex = io_return ()"
| "process_rows rt w config syncJobId identifierIndex (row # dataRows) rowIndex =
     io_seq (process_row rt w config syncJobId identifierIndex row (rowIndex + 2))
       (process_rows rt w config syncJobId identifierIndex dataRows (Suc rowIndex))"

definition job_finished :: "SheetsSyncResult \<Rightarrow> job_update" where
  "job_finished r =
     \<lparr>job_status = (if success r then ''COMPLETED'' else ''FAILED''),
      job_recordsProcessed = Some (rowsProcessed r),
      job_recordsCreated = Some (recordsCreated r),
      job_recordsUpdated = Some (recordsUpdated r),
      job_recordsFailed = Some (length (errors r)),
      job_errorMessage =
        (if length (errors r) > 0
         then Some (nat_to_string (length (errors r)) @ '' records failed to sync'') else None)\<rparr>"

definition job_failed :: "exn \<Rightarrow> job_update" where
  "job_failed error =
     \<lparr>job_status = ''FAILED'', job_recordsProcessed = None, job_recordsCreated = None,
      job_recordsUpdated = None, job_recordsFailed = None, job_errorMessage = Some error\<rparr>"

definition SheetsSyncResult_init :: SheetsSyncResult where
  "SheetsSyncResult_init =
     \<lparr>success = False, recordsCreated = 0, recordsUpdated = 0, recordsSkipped = 0, errors = [],
      rowsProcessed = 0\<rparr>"

text \<open>
  \<^verbatim>\<open>SheetsToHubSpotSync.executeSync\<close>: the job is created before the outer \<^verbatim>\<open>try\<close>; the
  outer \<^verbatim>\<open>catch\<close> marks the job failed and throws the error again.
\<close>

definition SheetsToHubSpotSync_executeSync_io ::
  "js_runtime \<Rightarrow> world \<Rightarrow> SheetsToHubSpotSyncConfig \<Rightarrow> (SheetsSyncResult, SheetsSyncResult) io" where
  "SheetsToHubSpotSync_executeSync_io rt w config =
     io_bind (ext (SyncJob_create (syncConfigId config)) (\<lambda>h. syncJob_create w h (syncConfigId config)))
       (\<lambda>syncJobId.
          io_seq
            (io_catch
               (io_bind (ext (ReadSheet (spreadsheetId config) (sheetName config))
                           (\<lambda>h. readSheet w h (spreadsheetId config) (sheetName config)))
                  (\<lambda>sheetData.
                     io_seq (io_of (validateHeaders (headers sheetData) (fieldMappings config)))
                       (case indexOf (headers sheetData) (identifierColumn config) of
                          None \<Rightarrow>
                            io_throw (''Identifier column \"'' @ identifierColumn config @ ''\" not found'')
                        | Some identifierIndex \<Rightarrow>
                            io_seq (process_rows rt w config syncJobId identifierIndex
                                      (rows sheetData) 0)
                           (io_seq (io_modify (\<lambda>r. r\<lparr>success := (length (errors r) = 0)\<rparr>))
                              (io_bind io_result
                                 (\<lambda>r. ext (SyncJob_update syncJobId (job_finished r))
                                        (\<lambda>h. effect w h (SyncJob_update syncJobId (job_finished r)))))))))
               (\<lambda>error.
                  io_seq (ext (SyncJob_update syncJobId (job_failed error))
                            (\<lambda>h. effect w h (SyncJob_update syncJobId (job_failed error))))
                    (io_throw error)))
            io_result)"

definition SheetsToHubSpotSync_executeSync ::
  "js_runtime \<Rightarrow> world \<Rightarrow> SheetsToHubSpotSyncConfig \<Rightarrow> call list \<times> SheetsSyncResult outcome" where
  "SheetsToHubSpotSync_executeSync rt w config =
     (case SheetsToHubSpotSync_executeSync_io rt w config
             \<lparr>calls = [], result = SheetsSyncResult_init\<rparr> of
        (s, out) \<Rightarrow> (calls s, out))"

section \<open>CRM to sheet orchestrator\<close>

text \<open>
  The private methods of \<^verbatim>\<open>class HubSpotToSheetsSync\<close> (hubspot-to-sheets.ts).

  \<^verbatim>\<open>fetchHubSpotData\<close> is a \<^verbatim>\<open>do ... while (after)\<close> loop over the pages of the CRM,
  which runs for as long as the CRM answers a cursor. \<open>fetchPages\<close> has a bound on the
  number of pages it reads and is \<open>Diverges\<close> when the bound is used up.
\<close>

fun fetchPages ::
  "nat \<Rightarrow> world \<Rightarrow> string \<Rightarrow> string list \<Rightarrow> string option \<Rightarrow> hub_record list
     \<Rightarrow> ('r, hub_record list) io" where
  "fetchPages 0 w entityType properties after results = (\<lambda>s. (s, Diverges))"
| "fetchPages (Suc fuel) w entityType properties after results =
     (if is_entity_type entityType then
        io_bind (ext (GetPage entityType after properties)
                   (\<lambda>h. getPage w h entityType after properties))
          (\<lambda>response.
             if (case snd response of Some a \<Rightarrow> a \<noteq> [] | None \<Rightarrow> False)
             then fetchPages fuel w entityType properties (snd response) (results @ fst response)
             else io_return (results @ fst response))
      else io_throw (''Unsupported entity type: '' @ entityType))"

definition fetchHubSpotData ::
  "nat \<Rightarrow> world \<Rightarrow> string \<Rightarrow> string list \<Rightarrow> ('r, hub_record list) io" where
  "fetchHubSpotData fuel w entityType properties = fetchPages fuel w entityType properties None []"

definition HubSpotToSheetsSync_applyTransformation ::
  "js_runtime \<Rightarrow> jsval \<Rightarrow> string option \<Rightarrow> jsval" where
  "HubSpotToSheetsSync_applyTransformation rt value ty =
     (case ty of
        None \<Rightarrow> value
      | Some t \<Rightarrow>
          if t = [] \<or> \<not> truthy value then value
          else if t = ''DATE_FORMAT''
            then (case Date_new rt value of
                    NaN \<Rightarrow> JStr ''Invalid Date''
                  | Num ms \<Rightarrow> JStr (toLocaleDateString rt ms))
          else if t = ''UPPERCASE'' then JStr (toUpperCase (to_String value))
          else if t = ''LOWERCASE'' then JStr (toLowerCase (to_String value))
          else if t = ''NUMBER''
            then js_or (JNum (parseFloat rt (to_String value))) (JNum (Num 0))
          else if t = ''BOOLEAN''
            then (if value = JStr ''true'' \<or> value = JBool True then JStr ''TRUE'' else JStr ''FALSE'')
          else value)"

text \<open>\<^verbatim>\<open>row[i] = v\<close>: writing past the end of an array extends it.\<close>

definition js_set :: "jsval list \<Rightarrow> nat \<Rightarrow> jsval \<Rightarrow> jsval list" where
  "js_set xs i v =
     (if i < length xs then xs[i := v] else xs @ replicate (i - length xs) Undefined @ [v])"

text \<open>
  \<^verbatim>\<open>transformData\<close>: one row per record, \<^verbatim>\<open>new Array(fieldMappings.length)\<close> filled by
  column index, with the record's id put in front by \<^verbatim>\<open>unshift\<close>.
\<close>

definition transformRecord :: "js_runtime \<Rightarrow> field_mapping list \<Rightarrow> hub_record \<Rightarrow> jsval list" where
  "transformRecord rt mappings record =
     JStr (hs_id record) #
       foldl (\<lambda>row mapping.
                let value = HubSpotToSheetsSync_applyTransformation rt
                              (prop_of (hs_properties record) (hubspotProperty mapping))
                              (transformType mapping)
                in js_set row (columnIndex mapping) (js_or value (JStr [])))
         (replicate (length mappings) Undefined) mappings"

definition transformData ::
  "js_runtime \<Rightarrow> hub_record list \<Rightarrow> field_mapping list \<Rightarrow> jsval list list" where
  "transformData rt hubspotRecords mappings = map (transformRecord rt mappings) hubspotRecords"

text \<open>
  \<^verbatim>\<open>prepareHeaders\<close> sorts \<^verbatim>\<open>config.fieldMappings\<close> in place (a stable sort by column
  index), so the run continues with the sorted list.
\<close>

definition sortMappings :: "field_mapping list \<Rightarrow> field_mapping list" where
  "sortMappings mappings = sort_key columnIndex mappings"

definition prepareHeaders :: "field_mapping list \<Rightarrow> string list" where
  "prepareHeaders mappings = ''HubSpot ID'' # map sheetColumn (sortMappings mappings)"

definition overwriteSheet ::
  "world \<Rightarrow> string \<Rightarrow> string \<Rightarrow> string list \<Rightarrow> jsval list list \<Rightarrow> ('r, unit) io" where
  "overwriteSheet w sid sheet hs newData =
     io_seq (ext (ClearRange sid sheet ''A:Z'') (\<lambda>h. effect w h (ClearRange sid sheet ''A:Z'')))
       (ext (WriteSheet sid sheet (map JStr hs # newData) ''A1'')
          (\<lambda>h. effect w h (WriteSheet sid sheet (map JStr hs # newData) ''A1'')))"

definition appendToSheet :: "world \<Rightarrow> string \<Rightarrow> string \<Rightarrow> jsval list list \<Rightarrow> ('r, unit) io" where
  "appendToSheet w sid sheet newData =
     ext (AppendToSheet sid sheet newData) (\<lambda>h. effect w h (AppendToSheet sid sheet newData))"

text \<open>
  \<^verbatim>\<open>updateSheet\<close>. \<open>existingRecords_of\<close> is the map from the key column's text to the
  row number, built by \<^verbatim>\<open>existingData.rows.forEach\<close>; \<open>plan_row\<close> is the body of
  \<^verbatim>\<open>for (const row of newData)\<close> on the counters and the two queues.
\<close>

fun existingRecords_of ::
  "nat \<Rightarrow> jsval list list \<Rightarrow> nat \<Rightarrow> (string \<times> nat) list \<Rightarrow> (string \<times> nat) list" where
  "existingRecords_of keyColumnIndex [] index m = m"
| "existingRecords_of keyColumnIndex (row # dataRows) index m =
     existingRecords_of keyColumnIndex dataRows (Suc index)
       (let key = js_nth row keyColumnIndex
        in if truthy key then Map_set m (to_String key) (index + 2) else m)"

text \<open>The range \<^verbatim>\<open>'${sheetName}'!A${existingRowNumber}\<close>.\<close>

definition update_range :: "string \<Rightarrow> nat \<Rightarrow> string" where
  "update_range sheet n = CHR 0x27 # sheet @ CHR 0x27 # ''!A'' @ nat_to_string n"

record update_plan =
  updated :: nat
  created :: nat
  skipped :: nat
  updates :: "(string \<times> jsval list list) list"
  appends :: "jsval list list"

definition plan_row ::
  "string \<Rightarrow> nat \<Rightarrow> (string \<times> nat) list \<Rightarrow> update_plan \<Rightarrow> jsval list \<Rightarrow> update_plan" where
  "plan_row sheet keyColumnIndex existingRecords p row =
     (let keyValue = js_nth row (keyColumnIndex + 1)
      in if \<not> truthy keyValue then p\<lparr>skipped := skipped p + 1\<rparr>
         else case Map_get existingRecords (to_String keyValue) of
                Some existingRowNumber \<Rightarrow>
                  if existingRowNumber \<noteq> 0
                  then p\<lparr>updates := updates p @
                           [(update_range sheet existingRowNumber, [row])],
                         updated := updated p + 1\<rparr>
                  else p\<lparr>appends := appends p @ [row], created := created p + 1\<rparr>
              | None \<Rightarrow> p\<lparr>appends := appends p @ [row], created := created p + 1\<rparr>)"

definition plan_rows ::
  "string \<Rightarrow> nat \<Rightarrow> (string \<times> nat) list \<Rightarrow> jsval list list \<Rightarrow> update_plan" where
  "plan_rows sheet keyColumnIndex existingRecords newData =
     foldl (plan_row sheet keyColumnIndex existingRecords)
       \<lparr>updated = 0, created = 0, skipped = 0, updates = [], appends = []\<rparr> newData"

definition updateSheet ::
  "world \<Rightarrow> string \<Rightarrow> string \<Rightarrow> sheet_data \<Rightarrow> jsval list list \<Rightarrow> string
     \<Rightarrow> ('r, update_plan) io" where
  "updateSheet w sid sheet existingData newData keyCol =
     (case indexOf (headers existingData) keyCol of
        None \<Rightarrow> io_throw (''Key column \"'' @ keyCol @ ''\" not found in sheet'')
      | Some keyColumnIndex \<Rightarrow>
          let existingRecords = existingRecords_of keyColumnIndex (rows existingData) 0 [];
              p = plan_rows sheet keyColumnIndex existingRecords newData
          in io_seq (if length (updates p) > 0
                     then ext (UpdateCells sid (updates p)) (\<lambda>h. effect w h (UpdateCells sid (updates p)))
                     else io_return ())
            (io_seq (if length (appends p) > 0
                     then ext (AppendToSheet sid sheet (appends p))
                            (\<lambda>h. effect w h (AppendToSheet sid sheet (appends p)))
                     else io_return ())
               (io_return p)))"

text \<open>\<^verbatim>\<open>updateSyncState\<close>: one upsert per written row, in order.\<close>

fun upsert_states ::
  "js_runtime \<Rightarrow> world \<Rightarrow> string \<Rightarrow> jsval list list \<Rightarrow> nat \<Rightarrow> ('r, unit) io" where
  "upsert_states rt w sid [] index = io_return ()"
| "upsert_states rt w sid (row # dataRows) index =
     (let c = SheetSyncState_upsert sid (js_nth row 0) (index + 2) (calculateRowHash rt row)
      in io_seq (ext c (\<lambda>h. effect w h c)) (upsert_states rt w sid dataRows (Suc index)))"

definition HubSpotToSheetsSync_updateSyncState ::
  "js_runtime \<Rightarrow> world \<Rightarrow> string \<Rightarrow> jsval list list \<Rightarrow> ('r, unit) io" where
  "HubSpotToSheetsSync_updateSyncState rt w sid newData = upsert_states rt w sid newData 0"

definition job_completed :: "SyncResult \<Rightarrow> job_update" where
  "job_completed r =
     \<lparr>job_status = ''COMPLETED'',
      job_recordsProcessed = Some (recordsProcessed r),
      job_recordsCreated = Some (recordsCreated r),
      job_recordsUpdated = Some (recordsUpdated r),
      job_recordsFailed = Some (length (errors r)),
      job_errorMessage = None\<rparr>"

definition SyncResult_init :: SyncResult where
  "SyncResult_init =
     \<lparr>success = False, recordsCreated = 0, recordsUpdated = 0, recordsSkipped = 0, errors = [],
      recordsProcessed = 0\<rparr>"

text \<open>
  \<^verbatim>\<open>HubSpotToSheetsSync.executeSync\<close>: the \<^verbatim>\<open>catch\<close> pushes the error and marks the job
  failed, and the method returns \<^verbatim>\<open>result\<close> after it.
\<close>

definition HubSpotToSheetsSync_executeSync_io ::
  "nat \<Rightarrow> js_runtime \<Rightarrow> world \<Rightarrow> HubSpotToSheetsSyncConfig \<Rightarrow> (SyncResult, SyncResult) io" where
  "HubSpotToSheetsSync_executeSync_io fuel rt w config =
     io_bind (ext (SyncJob_create (syncConfigId config)) (\<lambda>h. syncJob_create w h (syncConfigId config)))
       (\<lambda>syncJobId.
          io_seq
            (io_catch
               (io_bind (fetchHubSpotData fuel w (hubspotEntityType config)
                           (map hubspotProperty (fieldMappings config)))
                  (\<lambda>hubspotData.
                     io_bind (ext (ReadSheet (spreadsheetId config) (sheetName config))
                                (\<lambda>h. readSheet w h (spreadsheetId config) (sheetName config)))
                       (\<lambda>sheetData.
                          let hs = prepareHeaders (fieldMappings config);
                              transformedData =
                                transformData rt hubspotData (sortMappings (fieldMappings config))
                          in io_seq
                               (if syncMode config = ''overwrite'' then
                                  io_seq (overwriteSheet w (spreadsheetId config) (sheetName config)
                                            hs transformedData)
                                    (io_modify (\<lambda>r. r\<lparr>recordsCreated := length transformedData\<rparr>))
                                else if syncMode config = ''append'' then
                                  io_seq (appendToSheet w (spreadsheetId config) (sheetName config)
                                            transformedData)
                                    (io_modify (\<lambda>r. r\<lparr>recordsCreated := length transformedData\<rparr>))
                                else if syncMode config = ''update'' then
                                  io_bind (updateSheet w (spreadsheetId config) (sheetName config)
                                             sheetData transformedData
                                             (case keyColumn config of
                                                None \<Rightarrow> ''email''
                                              | Some k \<Rightarrow> if k = [] then ''email'' else k))
                                    (\<lambda>updateResult.
                                       io_modify (\<lambda>r. r\<lparr>recordsUpdated := updated updateResult,
                                                          recordsCreated := created updateResult,
                                                          recordsSkipped := skipped updateResult\<rparr>))
                                else io_return ())
                              (io_seq (io_modify (\<lambda>r. r\<lparr>recordsProcessed := length hubspotData,
                                                          success := True\<rparr>))
                                (io_seq (io_bind io_result
                                           (\<lambda>r. ext (SyncJob_update syncJobId (job_completed r))
                                                  (\<lambda>h. effect w h (SyncJob_update syncJobId (job_completed r)))))
                                   (HubSpotToSheetsSync_updateSyncState rt w (spreadsheetId config)
                                      transformedData))))))
               (\<lambda>error.
                  io_seq (io_modify (\<lambda>r. r\<lparr>errors := errors r @ [(Null, error)]\<rparr>))
                    (ext (SyncJob_update syncJobId (job_failed error))
                       (\<lambda>h. effect w h (SyncJob_update syncJobId (job_failed error))))))
            io_result)"

definition HubSpotToSheetsSync_executeSync ::
  "nat \<Rightarrow> js_runtime \<Rightarrow> world \<Rightarrow> HubSpotToSheetsSyncConfig \<Rightarrow> call list \<times> SyncResult outcome" where
  "HubSpotToSheetsSync_executeSync fuel rt w config =
     (case HubSpotToSheetsSync_executeSync_io fuel rt w config
             \<lparr>calls = [], result = SyncResult_init\<rparr> of
        (s, out) \<Rightarrow> (calls s, out))"

section \<open>Change detection\<close>

text \<open>
  \<^verbatim>\<open>SheetsToHubSpotSync.detectChanges\<close> (sheets-to-hubspot.ts), on the rows that
  \<^verbatim>\<open>readSheet\<close> returned and the states that \<^verbatim>\<open>sheetSyncState.findMany\<close> returned.
\<close>

datatype change_type = New | Modified | Deleted

type_synonym change = "nat \<times> change_type"

text \<open>
  \<^verbatim>\<open>syncStates.forEach(state => stateMap.set(state.sheetRowNumber, state.syncHash))\<close>:
  a stored state is the pair of its row number and its hash.
\<close>

definition build_stateMap :: "(nat \<times> string) list \<Rightarrow> (nat \<times> string) list" where
  "build_stateMap syncStates = foldl (\<lambda>m state. Map_set m (fst state) (snd state)) [] syncStates"

text \<open>
  The body of \<^verbatim>\<open>sheetData.rows.forEach((row, index) => ...)\<close>. The test
  \<^verbatim>\<open>!existingHash\<close> holds for a missing entry and for a stored empty string.
\<close>

definition check_row ::
  "js_runtime \<Rightarrow> jsval list \<Rightarrow> nat \<Rightarrow> (nat \<times> string) list \<times> change list
     \<Rightarrow> (nat \<times> string) list \<times> change list" where
  "check_row rt row index st =
     (let stateMap = fst st; changes = snd st;
          rowNumber = index + 2;
          currentHash = calculateRowHash rt row;
          existingHash = Map_get stateMap rowNumber;
          changes' =
            (case existingHash of
               None \<Rightarrow> changes @ [(rowNumber, New)]
             | Some h \<Rightarrow>
                 if h = [] then changes @ [(rowNumber, New)]
                 else if h \<noteq> currentHash then changes @ [(rowNumber, Modified)]
                 else changes)
      in (Map_delete stateMap rowNumber, changes'))"

fun check_rows ::
  "js_runtime \<Rightarrow> jsval list list \<Rightarrow> nat \<Rightarrow> (nat \<times> string) list \<times> change list
     \<Rightarrow> (nat \<times> string) list \<times> change list" where
  "check_rows rt [] index st = st"
| "check_rows rt (row # dataRows) index st =
     check_rows rt dataRows (Suc index) (check_row rt row index st)"

text \<open>
  \<open>detectChanges\<close> on the rows read from the sheet and the states read from the store:
  the changes of the scan, then a \<open>Deleted\<close> entry for every key left in the map.
\<close>

definition detectChanges ::
  "js_runtime \<Rightarrow> jsval list list \<Rightarrow> (nat \<times> string) list \<Rightarrow> change list" where
  "detectChanges rt dataRows syncStates =
     (let st = check_rows rt dataRows 0 (build_stateMap syncStates, [])
      in snd st @ map (\<lambda>e. (fst e, Deleted)) (fst st))"

section \<open>Inputs for the closed examples\<close>

text \<open>
  A runtime for evaluating runs on concrete inputs. The examples consult it only for the
  date of a text that is no date and for the hash of a row, where any platform answers
  an invalid date and a non-empty digest.
\<close>

definition example_runtime :: js_runtime where
  "example_runtime =
     \<lparr>Date_new = (\<lambda>v. case v of JNum n \<Rightarrow> n | _ \<Rightarrow> NaN),
      Date_of_fields = (\<lambda>y m d. NaN),
      Date_local = (\<lambda>t. (1970, 0, 1)),
      toLocaleDateString = (\<lambda>t. ''1/1/1970''),
      parseInt = (\<lambda>s. NaN),
      parseFloat = (\<lambda>s. NaN),
      toFixed = (\<lambda>n d. Inr (int_to_string n)),
      toLocaleString = int_to_string,
      format_currency = (\<lambda>c n. Inr (int_to_string n)),
      JSON_stringify = (\<lambda>v. Undefined),
      JSON_parse = (\<lambda>v. Inl ''SyntaxError''),
      run_function = (\<lambda>body v. Inl ''SyntaxError''),
      calculateRowHash = (\<lambda>row. ''sha256:'' @ to_String (JArr row))\<rparr>"

text \<open>
  A sheet with the header \<^verbatim>\<open>email, firstname\<close> and two data rows, the first without an
  email; a CRM that finds no record and creates record 101; a store that accepts every
  write. The configuration requires the email and has \<^verbatim>\<open>skipInvalid: false\<close>.
\<close>

definition strict_world :: world where
  "strict_world =
     \<lparr>syncJob_create = (\<lambda>h c. Inr ''job1''),
      readSheet = (\<lambda>h sid sheet. Inr \<lparr>headers = [''email'', ''firstname''],
                     rows = [[JStr [], JStr ''Jo''], [JStr ''b@x.com'', JStr ''Bo'']]\<rparr>),
      doSearch = (\<lambda>h e p v. Inr []),
      basicApi_create = (\<lambda>h e p. Inr ''101''),
      getPage = (\<lambda>h e a ps. Inr ([], None)),
      effect = (\<lambda>h c. Inr ())\<rparr>"

definition strict_config :: SheetsToHubSpotSyncConfig where
  "strict_config =
     \<lparr>syncConfigId = ''cfg1'', userId = ''u1'', spreadsheetId = ''S1'', sheetName = ''Sheet1'',
      hubspotEntityType = ''contacts'',
      fieldMappings =
        [\<lparr>hubspotProperty = ''email'', sheetColumn = ''email'', columnIndex = 0,
          transformType = None, isRequired = True\<rparr>,
         \<lparr>hubspotProperty = ''firstname'', sheetColumn = ''firstname'', columnIndex = 1,
          transformType = None, isRequired = False\<rparr>],
      identifierColumn = ''email'', updateExisting = True, createNew = True, skipInvalid = False\<rparr>"


definition matching_world :: world where
  "matching_world = strict_world\<lparr>doSearch := (\<lambda>h e p v. Inr [''55''])\<rparr>"

definition phone_config :: SheetsToHubSpotSyncConfig where
  "phone_config = strict_config\<lparr>identifierColumn := ''phone''\<rparr>"

text \<open>
  A CRM with one contact on a single page, an empty sheet, and a store in which the
  upsert of a row's sync state fails; a configuration of the CRM to sheet run in append
  mode.
\<close>

definition state_outage_world :: world where
  "state_outage_world =
     \<lparr>syncJob_create = (\<lambda>h c. Inr ''job2''),
      readSheet = (\<lambda>h sid sheet. Inr \<lparr>headers = [''HubSpot ID'', ''email''], rows = []\<rparr>),
      doSearch = (\<lambda>h e p v. Inr []),
      basicApi_create = (\<lambda>h e p. Inr ''101''),
      getPage = (\<lambda>h e a ps.
                   Inr ([\<lparr>hs_id = ''201'', hs_properties = [(''email'', JStr ''a@x.com'')]\<rparr>], None)),
      effect = (\<lambda>h c. case c of
                          SheetSyncState_upsert sid eid n hash \<Rightarrow> Inl ''store unavailable''
                        | _ \<Rightarrow> Inr ())\<rparr>"

definition append_config :: HubSpotToSheetsSyncConfig where
  "append_config =
     \<lparr>syncConfigId = ''cfg2'', userId = ''u1'', spreadsheetId = ''S1'', sheetName = ''Sheet1'',
      hubspotEntityType = ''contacts'',
      fieldMappings =
        [\<lparr>hubspotProperty = ''email'', sheetColumn = ''email'', columnIndex = 0,
          transformType = None\<rparr>],
      syncMode = ''append'', keyColumn = None\<rparr>"

text \<open>
  The entries that the scan adds for the row with the given index, read against the map
  as it is stored; \<open>check_rows_general\<close> below shows that the scan, which reads its
  shrinking working copy, adds exactly these.
\<close>

definition classify :: "js_runtime \<Rightarrow> (nat \<times> string) list \<Rightarrow> jsval list \<Rightarrow> nat \<Rightarrow> change list" where
  "classify rt stateMap row index =
     (case Map_get stateMap (index + 2) of
        None \<Rightarrow> [(index + 2, New)]
      | Some h \<Rightarrow> if h = [] then [(index + 2, New)]
                  else if h \<noteq> calculateRowHash rt row then [(index + 2, Modified)] else [])"







section \<open>Properties\<close>

lemmas io_defs = io_return_def io_throw_def io_bind_def io_seq_def io_catch_def io_modify_def
  io_result_def io_of_def ext_def

lemmas string_defs = trim_def is_space_def toUpperCase_def toUpperCase_char_def toLowerCase_def
  toLowerCase_char_def upper_letters_def lower_letters_def digit_char_def join_strings_def

lemmas s2h_defs = SheetsToHubSpotSync_executeSync_def SheetsToHubSpotSync_executeSync_io_def
  SheetsSyncResult_init_def process_row_def process_row_try_def isEmptyRow_def js_nth_def
  transformRowToHubSpot_def SheetsToHubSpotSync_applyTransformation_def
  validateRequiredFields_def prop_of_def Map_get_def
  findHubSpotRecord_def no_record_branch_def existing_record_branch_def
  createHubSpotRecord_def updateHubSpotRecord_def is_entity_type_def logSyncOperation_def
  SheetsToHubSpotSync_updateSyncState_def job_finished_def job_failed_def

subsection \<open>Strict mode of the sheet to CRM run\<close>

lemma strict_mode_row_is_row_error:
  assumes "\<not> isEmptyRow row"
    and "validateRequiredFields (transformRowToHubSpot rt row (fieldMappings config))
           (fieldMappings config) \<noteq> []"
    and "\<not> skipInvalid config"
  shows "process_row rt w config syncJobId identifierIndex row rowNumber s =
     io_seq
       (io_modify (\<lambda>r. r\<lparr>errors := errors r @
          [(rowNumber, row,
            ''Row '' @ nat_to_string rowNumber @ '': Missing required fields: ''
              @ join_strings '', ''
                  (validateRequiredFields (transformRowToHubSpot rt row (fieldMappings config))
                     (fieldMappings config)))]\<rparr>))
       (logSyncOperation w syncJobId ''SKIP'' (hubspotEntityType config) [] ''ERROR''
          (Some (''Row '' @ nat_to_string rowNumber @ '': Missing required fields: ''
                   @ join_strings '', ''
                       (validateRequiredFields (transformRowToHubSpot rt row (fieldMappings config))
                          (fieldMappings config))))) s"
  using assms
  by (simp add: process_row_def process_row_try_def Let_def io_catch_def io_throw_def)

text \<open>
  C1. With \<^verbatim>\<open>skipInvalid: false\<close> the error thrown for a row without a required field
  is caught by the row loop's own \<^verbatim>\<open>catch\<close>: the run on the example sheet does not
  raise. It logs the first row as an error, goes on to the second row, searches and
  creates its record, and returns a result with one error; the job ends \<^verbatim>\<open>FAILED\<close>
  because the error list is not empty.
\<close>

theorem strict_mode_row_error_is_caught:
  "SheetsToHubSpotSync_executeSync example_runtime strict_world strict_config =
     ([SyncJob_create ''cfg1'', ReadSheet ''S1'' ''Sheet1'',
       SyncLog_create ''job1'' ''SKIP'' ''CONTACTS'' [] ''ERROR''
         (Some ''Row 2: Missing required fields: email''),
       DoSearch ''contacts'' ''email'' (JStr ''b@x.com''),
       BasicApi_create ''contacts'' [(''email'', JStr ''b@x.com''), (''firstname'', JStr ''Bo'')],
       SyncLog_create ''job1'' ''CREATE'' ''CONTACTS'' ''101'' ''SUCCESS'' None,
       SheetSyncState_upsert ''S1'' (JStr ''101'') 3 [],
       SyncJob_update ''job1''
         \<lparr>job_status = ''FAILED'', job_recordsProcessed = Some 1, job_recordsCreated = Some 1,
          job_recordsUpdated = Some 0, job_recordsFailed = Some 1,
          job_errorMessage = Some ''1 records failed to sync''\<rparr>],
      Returns
        \<lparr>success = False, recordsCreated = 1, recordsUpdated = 0, recordsSkipped = 0,
         errors = [(2, [JStr [], JStr ''Jo''], ''Row 2: Missing required fields: email'')],
         rowsProcessed = 1\<rparr>)"
  by (simp add: s2h_defs io_defs string_defs strict_world_def strict_config_def Let_def)

subsection \<open>Empty rows\<close>

lemma isEmptyRow_of_blank_cells:
  assumes "list_all spec_blank_cell row"
  shows "isEmptyRow row"
  using assms by (induction row) (auto simp: isEmptyRow_def spec_blank_cell_def)

text \<open>
  C5. A row whose only cell is the number 0, or the boolean false, counts as empty,
  although the cell is neither null nor undefined nor blank after trimming.
\<close>

theorem isEmptyRow_falsy_cell:
  "isEmptyRow [JNum (Num 0)] \<and> \<not> list_all spec_blank_cell [JNum (Num 0)]
   \<and> isEmptyRow [JBool False] \<and> \<not> list_all spec_blank_cell [JBool False]"
  by (simp add: isEmptyRow_def spec_blank_cell_def int_to_string_def string_defs)

subsection \<open>Looking up the CRM record of a row\<close>




text \<open>
  C10. For contacts with an identifier column other than \<^verbatim>\<open>email\<close>,
  \<open>findHubSpotRecord\<close> leaves the calls as they are (no search is made) and returns
  null, whatever the CRM would have answered; a non-empty valid row then runs the
  branch of a record that was not found.
\<close>

theorem contacts_without_email_identifier_never_search:
  assumes contacts: "hubspotEntityType config = ''contacts''"
    and other: "identifierColumn config \<noteq> ''email''"
  shows "findHubSpotRecord w (hubspotEntityType config) (identifierColumn config) identifierValue s =
           (s, Returns None)
       \<and> (\<not> isEmptyRow row
            \<and> validateRequiredFields (transformRowToHubSpot rt row (fieldMappings config))
                  (fieldMappings config) = []
          \<longrightarrow> process_row_try rt w config syncJobId identifierIndex row rowNumber s' =
                io_seq (no_record_branch w config syncJobId
                          (transformRowToHubSpot rt row (fieldMappings config)) rowNumber)
                  (io_modify (\<lambda>r. r\<lparr>rowsProcessed := rowsProcessed r + 1\<rparr>)) s')"
proof -
  have f: "findHubSpotRecord w (hubspotEntityType config) (identifierColumn config) v =
             (\<lambda>s. (s, Returns None))" for v
    using contacts other by (simp add: findHubSpotRecord_def io_defs)
  show ?thesis
    by (simp add: f process_row_try_def Let_def io_bind_def io_seq_def)
qed

theorem contacts_without_email_identifier_never_search_witness:
  "doSearch matching_world [] ''contacts'' ''phone'' (JStr ''555-0100'') = Inr [''55'']
   \<and> findHubSpotRecord matching_world ''contacts'' ''phone'' (JStr ''555-0100'')
        \<lparr>calls = [], result = SheetsSyncResult_init\<rparr> =
       (\<lparr>calls = [], result = SheetsSyncResult_init\<rparr>, Returns None)"
proof -
  have h1: "hubspotEntityType phone_config = ''contacts''"
    by (simp add: phone_config_def strict_config_def)
  have h2: "identifierColumn phone_config \<noteq> ''email''"
    by (simp add: phone_config_def)
  have "findHubSpotRecord matching_world (hubspotEntityType phone_config)
          (identifierColumn phone_config) (JStr ''555-0100'')
          \<lparr>calls = [], result = SheetsSyncResult_init\<rparr> =
        (\<lparr>calls = [], result = SheetsSyncResult_init\<rparr>, Returns None)"
    by (rule contacts_without_email_identifier_never_search [OF h1 h2, THEN conjunct1])
  then show ?thesis
    by (simp add: phone_config_def strict_config_def matching_world_def)
qed

subsection \<open>Transform types\<close>

text \<open>
  C7. A transform type outside the recognised set leaves the value as it is, forward and
  in reverse, and the result is a value, not a thrown error; the same holds for the
  transformation of the sheet to CRM run and its own set of types.
\<close>

theorem unrecognized_transform_type_unchanged:
  "(ty \<notin> set recognized_types \<longrightarrow>
      applyTransformation rt value ty config = Inr value
      \<and> applyReverseTransformation rt value ty config = Inr value)
   \<and> (ty \<notin> set s2h_recognized_types \<longrightarrow>
      SheetsToHubSpotSync_applyTransformation rt value (Some ty) = value)"
  by (simp add: recognized_types_def s2h_recognized_types_def applyTransformation_def
      applyReverseTransformation_def SheetsToHubSpotSync_applyTransformation_def)

theorem unrecognized_transform_type_unchanged_witness:
  "''ROT13'' \<notin> set recognized_types \<and> ''ROT13'' \<notin> set s2h_recognized_types
   \<and> applyTransformation example_runtime (JStr ''abc'') ''ROT13'' Undefined = Inr (JStr ''abc'')
   \<and> applyReverseTransformation example_runtime (JStr ''abc'') ''ROT13'' Undefined = Inr (JStr ''abc'')
   \<and> SheetsToHubSpotSync_applyTransformation example_runtime (JStr ''abc'') (Some ''ROT13'') = JStr ''abc''"
proof -
  have h1: "''ROT13'' \<notin> set recognized_types" by (simp add: recognized_types_def)
  have h2: "''ROT13'' \<notin> set s2h_recognized_types" by (simp add: s2h_recognized_types_def)
  from unrecognized_transform_type_unchanged [of "''ROT13''" example_runtime "JStr ''abc''" Undefined]
    h1 h2
  show ?thesis by blast
qed

subsection \<open>Dates that do not parse\<close>

lemma formatDate_invalid:
  assumes "s \<noteq> []" and "Date_new rt (JStr s) = NaN"
  shows "formatDate rt (JStr s) format = JStr s"
  using assms by (simp add: formatDate_def)

lemma parseDate_invalid:
  assumes "s \<noteq> []" and "Date_new rt (JStr s) = NaN" and "length (js_split s ''/'') \<noteq> 3"
  shows "parseDate rt (JStr s) format = NaN"
  using assms by (simp add: parseDate_def Let_def)

text \<open>
  C6. On a text that is no date, \<^verbatim>\<open>DATE_FORMAT\<close> forward returns the text, and in
  reverse returns the time value of the invalid date, which is NaN and not 0:
  \<open>parseDate\<close> returns 0 only for an empty value.
\<close>

theorem date_reverse_of_unparsable_text_is_NaN:
  "Date_new example_runtime (JStr ''not a date'') = NaN
   \<and> applyTransformation example_runtime (JStr ''not a date'') ''DATE_FORMAT'' Undefined
       = Inr (JStr ''not a date'')
   \<and> applyReverseTransformation example_runtime (JStr ''not a date'') ''DATE_FORMAT'' Undefined
       = Inr (JNum NaN)
   \<and> JNum NaN \<noteq> JNum (Num 0)"
  by (simp add: applyTransformation_def applyReverseTransformation_def formatDate_def parseDate_def
      example_runtime_def get_prop_def js_or_def js_split_def Let_def)

subsection \<open>Success and the error list\<close>

lemmas h2s_defs = HubSpotToSheetsSync_executeSync_def HubSpotToSheetsSync_executeSync_io_def
  SyncResult_init_def fetchHubSpotData_def is_entity_type_def prepareHeaders_def sortMappings_def
  transformData_def transformRecord_def HubSpotToSheetsSync_applyTransformation_def prop_of_def
  Map_get_def js_set_def js_or_def overwriteSheet_def appendToSheet_def
  HubSpotToSheetsSync_updateSyncState_def job_completed_def job_failed_def js_nth_def

text \<open>
  The sheet to CRM run sets \<^verbatim>\<open>success\<close> from the error list as its last change of the
  result, so a result that it returns has \<^verbatim>\<open>success\<close> exactly when the list is empty.
\<close>

lemma sheet_to_crm_success_iff_no_errors:
  assumes "SheetsToHubSpotSync_executeSync rt w config = (cs, Returns r)"
  shows "success r = (errors r = [])"
  using assms
  by (auto simp: SheetsToHubSpotSync_executeSync_def SheetsToHubSpotSync_executeSync_io_def io_defs
      split: prod.splits outcome.splits sum.splits option.splits if_splits)

text \<open>
  C8. In the CRM to sheet run \<^verbatim>\<open>result.success = true\<close> is set before the job update
  and the sync state update. When the store then fails, the \<^verbatim>\<open>catch\<close> pushes the error
  and marks the job failed, and the run returns a result that has \<^verbatim>\<open>success\<close> true and
  an error in its list.
\<close>

theorem success_with_errors_after_state_failure:
  "snd (HubSpotToSheetsSync_executeSync 1 example_runtime state_outage_world append_config) =
     Returns \<lparr>success = True, recordsCreated = 1, recordsUpdated = 0, recordsSkipped = 0,
              errors = [(Null, ''store unavailable'')], recordsProcessed = 1\<rparr>
   \<and> last (fst (HubSpotToSheetsSync_executeSync 1 example_runtime state_outage_world append_config)) =
     SyncJob_update ''job2'' (job_failed ''store unavailable'')"
  by (simp add: h2s_defs io_defs state_outage_world_def append_config_def example_runtime_def Let_def)

subsection \<open>Change detection\<close>

lemma check_row_classify:
  "check_row rt row k (m, cs) = (Map_delete m (k + 2), cs @ classify rt m row k)"
  by (simp add: check_row_def classify_def Let_def split: option.splits)

lemma Map_get_delete_other: "a \<noteq> b \<Longrightarrow> Map_get (Map_delete m a) b = Map_get m b"
  by (induction m) (auto simp: Map_get_def Map_delete_def)

lemma classify_delete_other:
  "a \<noteq> i + 2 \<Longrightarrow> classify rt (Map_delete m a) row i = classify rt m row i"
  by (simp add: classify_def Map_get_delete_other)

lemma check_rows_general:
  "check_rows rt dataRows k (m, cs) =
     (filter (\<lambda>e. fst e < k + 2 \<or> k + 2 + length dataRows \<le> fst e) m,
      cs @ concat (map (\<lambda>i. classify rt m (dataRows ! i) (k + i)) [0..<length dataRows]))"
proof (induction dataRows arbitrary: k m cs)
  case Nil
  have "filter (\<lambda>e. fst e < k + 2 \<or> k + 2 \<le> fst e) m = m"
    by (rule filter_True) auto
  then show ?case by simp
next
  case (Cons row dataRows)
  have f: "filter (\<lambda>e. fst e < Suc k + 2 \<or> Suc k + 2 + length dataRows \<le> fst e) (Map_delete m (k + 2))
          = filter (\<lambda>e. fst e < k + 2 \<or> k + 2 + length (row # dataRows) \<le> fst e) m"
    unfolding Map_delete_def filter_filter by (rule filter_cong) auto
  have c: "map (\<lambda>i. classify rt (Map_delete m (k + 2)) (dataRows ! i) (Suc k + i)) [0..<length dataRows]
          = map (\<lambda>i. classify rt m (dataRows ! i) (Suc k + i)) [0..<length dataRows]"
    by (rule map_cong) (simp_all add: classify_delete_other)
  have u: "[0..<length (row # dataRows)] = 0 # map Suc [0..<length dataRows]"
    by (simp add: upt_conv_Cons map_Suc_upt del: upt_Suc)
  show ?case
    by (simp only: check_rows.simps check_row_classify Cons.IH f c u)
       (simp add: comp_def)
qed

lemma Map_set_map_of: "map_of (Map_set m k v) = (map_of m)(k \<mapsto> v)"
  by (induction m) (auto simp: fun_eq_iff)

lemma foldl_Map_set_map_of:
  "map_of (foldl (\<lambda>m state. Map_set m (fst state) (snd state)) m0 states) =
     map_of m0 ++ map_of (rev states)"
  by (induction states arbitrary: m0) (simp_all add: Map_set_map_of map_add_upd_left fun_eq_iff map_add_def split: option.splits)

lemma build_stateMap_lookup: "Map_get (build_stateMap syncStates) r = map_of (rev syncStates) r"
  by (simp add: Map_get_def build_stateMap_def foldl_Map_set_map_of)

lemma check_rows_from_start:
  "check_rows rt dataRows 0 (m, cs) =
     (filter (\<lambda>e. fst e < 2 \<or> length dataRows + 2 \<le> fst e) m,
      cs @ concat (map (\<lambda>i. classify rt m (dataRows ! i) i) [0..<length dataRows]))"
  using check_rows_general [of rt dataRows 0 m cs] by (simp add: add.commute numeral_2_eq_2)

lemma detectChanges_list:
  "detectChanges rt dataRows syncStates =
     concat (map (\<lambda>i. classify rt (build_stateMap syncStates) (dataRows ! i) i) [0..<length dataRows])
     @ map (\<lambda>e. (fst e, Deleted))
         (filter (\<lambda>e. fst e < 2 \<or> length dataRows + 2 \<le> fst e) (build_stateMap syncStates))"
  by (simp only: detectChanges_def Let_def check_rows_from_start fst_conv snd_conv append_Nil)

lemma Map_get_Some_iff: "(Map_get m r \<noteq> None) = (r \<in> fst ` set m)"
  by (simp add: Map_get_def map_of_eq_None_iff)

text \<open>
  C3, as amended. After the scan the working copy holds the stored entries of the row
  numbers that no current row has. The changes are: \<open>New\<close> for every current row
  (row number = index + 2) that has no stored entry or whose stored hash is the empty
  string; \<open>Modified\<close> for every current row whose stored hash is not empty and differs
  from the current hash; \<open>Deleted\<close> for every stored row number that no current row
  has. A current row whose stored hash equals its hash has no entry.
\<close>

theorem detectChanges_classification:
  "fst (check_rows rt dataRows 0 (build_stateMap syncStates, [])) =
     filter (\<lambda>e. fst e < 2 \<or> length dataRows + 2 \<le> fst e) (build_stateMap syncStates)
   \<and> set (detectChanges rt dataRows syncStates) =
     {(i + 2, New) | i. i < length dataRows
        \<and> (Map_get (build_stateMap syncStates) (i + 2) = None
           \<or> Map_get (build_stateMap syncStates) (i + 2) = Some [])}
     \<union> {(i + 2, Modified) | i. i < length dataRows
        \<and> Map_get (build_stateMap syncStates) (i + 2) \<noteq> None
        \<and> Map_get (build_stateMap syncStates) (i + 2) \<noteq> Some []
        \<and> Map_get (build_stateMap syncStates) (i + 2) \<noteq> Some (calculateRowHash rt (dataRows ! i))}
     \<union> {(r, Deleted) | r. Map_get (build_stateMap syncStates) r \<noteq> None
        \<and> (r < 2 \<or> length dataRows + 2 \<le> r)}"
proof -
  let ?m = "build_stateMap syncStates"
  have c: "set (classify rt ?m row i) =
      {(i + 2, New) | u::unit. Map_get ?m (i + 2) = None \<or> Map_get ?m (i + 2) = Some []}
      \<union> {(i + 2, Modified) | u::unit. Map_get ?m (i + 2) \<noteq> None \<and> Map_get ?m (i + 2) \<noteq> Some []
            \<and> Map_get ?m (i + 2) \<noteq> Some (calculateRowHash rt row)}" for row i
    by (auto simp: classify_def split: option.splits)
  have del: "set (map (\<lambda>e. (fst e, Deleted)) (filter (\<lambda>e. fst e < 2 \<or> length dataRows + 2 \<le> fst e) ?m))
      = {(r, Deleted) | r. Map_get ?m r \<noteq> None \<and> (r < 2 \<or> length dataRows + 2 \<le> r)}"
    unfolding Map_get_Some_iff by (auto simp: image_iff)
  have scan: "set (concat (map (\<lambda>i. classify rt ?m (dataRows ! i) i) [0..<length dataRows])) =
     {(i + 2, New) | i. i < length dataRows
        \<and> (Map_get ?m (i + 2) = None \<or> Map_get ?m (i + 2) = Some [])}
     \<union> {(i + 2, Modified) | i. i < length dataRows
        \<and> Map_get ?m (i + 2) \<noteq> None \<and> Map_get ?m (i + 2) \<noteq> Some []
        \<and> Map_get ?m (i + 2) \<noteq> Some (calculateRowHash rt (dataRows ! i))}"
    by (auto simp: c)
  show ?thesis
    by (simp only: detectChanges_list set_append del scan check_rows_from_start fst_conv)
qed

text \<open>
  C3 as stated fails for a stored entry whose hash is the empty string, which is what the
  sheet to CRM run stores for a record it has created: the entry exists and its hash
  differs from the row's hash, and the row is classified \<open>New\<close>, not \<open>Modified\<close>.
\<close>

theorem pending_hash_row_is_new:
  "Map_get (build_stateMap [(2, [])]) 2 = Some []
   \<and> calculateRowHash example_runtime [JStr ''x''] \<noteq> []
   \<and> detectChanges example_runtime [[JStr ''x'']] [(2, [])] = [(2, New)]"
  by (simp add: detectChanges_def build_stateMap_def check_row_def Map_get_def Map_delete_def
      example_runtime_def)

subsection \<open>Update mode of the CRM to sheet run\<close>













subsection \<open>Round trips of the Field Transformer\<close>


















end
